theory Spec2Isabelle
  imports Main
begin

section \<open>Go values that cross the adapter's boundary\<close>

text \<open>
  The adapter in \<^verbatim>\<open>internal/interfaces/networking_ip_interface.go\<close> moves
  \<^verbatim>\<open>map[string]interface{}\<close> values between typed structs and the REST client.
  An \<^verbatim>\<open>interface{}\<close> value is one of the shapes below; a map is the list of its
  entries, in the order in which the Go runtime would iterate over it.
  \<open>Number\<close> stands for a numeric value (the \<^verbatim>\<open>int64\<close> of a body field, or a JSON
  number with an integral value).
\<close>

datatype gval =
    Null
  | Str string
  | Boolean bool
  | Number int
  | Object "(string \<times> gval) list"
  | Array "gval list"

type_synonym object = "(string \<times> gval) list"

text \<open>
  A Go slice can be \<^verbatim>\<open>nil\<close>, which is not the same value as an empty slice:
  \<open>None\<close> is the nil slice, \<open>Some []\<close> an allocated slice of length zero.
  Ranging over a nil slice visits nothing; \<^verbatim>\<open>append\<close> always yields a non-nil slice.
\<close>

type_synonym 'a slice = "'a list option"

definition slice_elems :: "'a slice \<Rightarrow> 'a list" where
  "slice_elems s = (case s of None \<Rightarrow> [] | Some xs \<Rightarrow> xs)"

definition append_slice :: "'a slice \<Rightarrow> 'a \<Rightarrow> 'a slice" where
  "append_slice s x = Some (slice_elems s @ [x])"

text \<open>A nil map has no entries; only a comparison with \<^verbatim>\<open>nil\<close> tells it from an empty one.\<close>

definition map_entries :: "object option \<Rightarrow> object" where
  "map_entries m = (case m of None \<Rightarrow> [] | Some es \<Rightarrow> es)"

section \<open>The data model (lines 12--49 of the source)\<close>

text \<open>
  Field names are the Go field names. Where two structs share a field name
  (\<^verbatim>\<open>Name\<close>), the later ones carry the struct as a prefix. A pointer field is an
  \<open>option\<close>; \<^verbatim>\<open>int64\<close> is an \<open>int\<close> (the adapter does no arithmetic on it).
\<close>

record IPInterfaceGetDataModelONTAP =
  Name :: string
  Scope :: string
  SVMName :: string
  UUID :: string

text \<open>
  Modelled from the spec: \<^verbatim>\<open>Vserver\<close> is declared elsewhere in the package; the wire
  shape of the request body gives it as \<^verbatim>\<open>svm: {name}\<close>.
\<close>

record Vserver =
  Vserver_Name :: string

record IPInterfaceResourceIP =
  Address :: string
  Netmask :: int

record IPInterfaceResourceHomeNode =
  HomeNode_Name :: string

record IPInterfaceResourceHomePort =
  HomePort_Name :: string
  Node :: IPInterfaceResourceHomeNode

record IPInterfaceResourceLocation =
  HomeNode :: "IPInterfaceResourceHomeNode option"
  HomePort :: "IPInterfaceResourceHomePort option"

record IPInterfaceResourceBodyDataModelONTAP =
  Body_Name :: string
  SVM :: Vserver
  IP :: IPInterfaceResourceIP
  Location :: IPInterfaceResourceLocation

text \<open>
  Modelled from the spec: the response of the create call is "a response object exposing
  a records collection"; \<^verbatim>\<open>restclient.RestResponse\<close> itself is not part of the slice.
\<close>

record RestResponse =
  Records :: "object slice"

section \<open>Errors and formatted text\<close>

text \<open>
  A non-nil Go \<^verbatim>\<open>error\<close> is a value of type \<open>error\<close>; the nil error is \<open>None\<close> of
  \<open>error option\<close>. \<^verbatim>\<open>fmt.Errorf\<close> and \<^verbatim>\<open>fmt.Sprintf\<close> are kept as their format
  string with their arguments (a \<open>message\<close> is a Go string, literal or formatted):
  how \<^verbatim>\<open>%#v\<close> prints a value is the Go runtime's matter.
  \<open>mapstructure_Error\<close> is the error of a failed \<^verbatim>\<open>mapstructure.Decode\<close>, with the keys
  of the fields that could not be decoded; \<open>Error\<close> is any other error, named by its text
  (the REST client's transport errors).
\<close>

datatype error =
    Errorf string "fmtarg list"
  | mapstructure_Error "string list"
  | Error string
and fmtarg =
    ArgString string
  | ArgInt int
  | ArgError error
  | ArgMap "object option"
  | ArgFilter "IPInterfaceGetDataModelONTAP option"
  | ArgBody IPInterfaceResourceBodyDataModelONTAP
  | ArgResponse RestResponse

datatype message = Lit string | Sprintf string "fmtarg list"

text \<open>
  Modelled from the spec: \<^verbatim>\<open>utils.ErrorHandler\<close> is "a facility that, given a short
  summary and a detailed message, produces a caller-visible diagnostic error object".
  The handler is a parameter of every operation, as in the source; what it returns is
  an \<open>error\<close>, that is, never nil.
\<close>

record ErrorHandler =
  MakeAndReportError :: "message \<Rightarrow> message \<Rightarrow> error"

text \<open>A run-time panic of the Go program: index, then length.\<close>

datatype panic = IndexOutOfRange nat nat

datatype 'a outcome = Returns 'a | Panics panic

section \<open>The REST client\<close>

text \<open>
  Modelled from the spec: the query builder supports "key/value assignment, field-list
  selection, and bulk assignment from a flattened mapping". \<^verbatim>\<open>restclient.RestQuery\<close>
  is not part of the slice, so a query is the sequence of the builder calls made on it.
\<close>

datatype QueryCall =
    QSet string string
  | QAdd string string
  | QFields "string list"
  | QSetValues object

type_synonym RestQuery = "QueryCall list"

definition NewQuery :: RestQuery where
  "NewQuery = []"

definition Set :: "RestQuery \<Rightarrow> string \<Rightarrow> string \<Rightarrow> RestQuery" where
  "Set q k v = q @ [QSet k v]"

definition Add :: "RestQuery \<Rightarrow> string \<Rightarrow> string \<Rightarrow> RestQuery" where
  "Add q k v = q @ [QAdd k v]"

definition Fields :: "RestQuery \<Rightarrow> string list \<Rightarrow> RestQuery" where
  "Fields q fs = q @ [QFields fs]"

definition SetValues :: "RestQuery \<Rightarrow> object \<Rightarrow> RestQuery" where
  "SetValues q m = q @ [QSetValues m]"

text \<open>
  Modelled from the spec: what \<^verbatim>\<open>restclient.RestQuery\<close> does with these calls is not
  part of the slice. The key/value pairs that a query carries as its parameters are those
  of its "key/value assignment" calls and, for a "bulk assignment from a flattened
  mapping", every entry of the mapping; the field list is selected apart from them.
\<close>

fun call_params :: "QueryCall \<Rightarrow> (string \<times> gval) list" where
  "call_params (QSet k v) = [(k, Str v)]"
| "call_params (QAdd k v) = [(k, Str v)]"
| "call_params (QFields fs) = []"
| "call_params (QSetValues m) = m"

definition query_params :: "RestQuery \<Rightarrow> (string \<times> gval) list" where
  "query_params q = concat (map call_params q)"

text \<open>
  The client itself is a parameter. Each call is a round trip to the remote system, whose
  state \<open>'w\<close> it reads and may change: a call takes the state and returns its Go results
  with the state after it. The optional query and body arguments are \<open>None\<close> where
  the source passes \<^verbatim>\<open>nil\<close>.
\<close>

record 'w RestClient =
  GetNilOrOneRecord ::
    "string \<Rightarrow> RestQuery \<Rightarrow> object option \<Rightarrow> 'w \<Rightarrow> (int \<times> object option \<times> error option) \<times> 'w"
  GetZeroOrMoreRecords ::
    "string \<Rightarrow> RestQuery \<Rightarrow> object option \<Rightarrow> 'w \<Rightarrow> (int \<times> object slice \<times> error option) \<times> 'w"
  CallCreateMethod ::
    "string \<Rightarrow> RestQuery \<Rightarrow> object \<Rightarrow> 'w \<Rightarrow> (int \<times> RestResponse \<times> error option) \<times> 'w"
  CallDeleteMethod ::
    "string \<Rightarrow> RestQuery option \<Rightarrow> object option \<Rightarrow> 'w \<Rightarrow> (int \<times> RestResponse \<times> error option) \<times> 'w"

section \<open>\<^verbatim>\<open>mapstructure.Decode\<close> at the three types the adapter uses\<close>

text \<open>
  The struct tags of the source are the program here. Decoding a map into a struct looks
  each tagged field up by its key, first exactly and then ignoring letter case (the
  first such entry in iteration order); a missing key or a nil value leaves
  the field at its zero value, a string is stored, and any other value is a type error
  for a \<^verbatim>\<open>string\<close> field. Keys that match no field are ignored. All fields are
  tried and the call fails if any of them did.
\<close>

definition ascii_lower :: "char \<Rightarrow> char" where
  "ascii_lower c =
     (case map_of (zip ''ABCDEFGHIJKLMNOPQRSTUVWXYZ'' ''abcdefghijklmnopqrstuvwxyz'') c of
        Some l \<Rightarrow> l
      | None \<Rightarrow> c)"

text \<open>
  \<^verbatim>\<open>strings.EqualFold\<close> compares under Unicode simple case folding. A Go string is the
  list of its UTF-8 bytes. Besides the ASCII letters themselves, two code points fold to
  an ASCII letter: U+017F (long s, bytes C5 BF) to \<open>s\<close> and U+212A (Kelvin sign, bytes
  E2 84 AA) to \<open>k\<close>. Every tag of the source is ASCII, so folding these and the ASCII
  capitals decides the comparison of a key with a tag as Go does.
\<close>

fun fold_case :: "string \<Rightarrow> string" where
  "fold_case [] = []"
| "fold_case (c # cs) =
     (if c = CHR 0xC5 \<and> take 1 cs = [CHR 0xBF] then CHR ''s'' # fold_case (drop 1 cs)
      else if c = CHR 0xE2 \<and> take 2 cs = [CHR 0x84, CHR 0xAA] then CHR ''k'' # fold_case (drop 2 cs)
      else ascii_lower c # fold_case cs)"

definition EqualFold :: "string \<Rightarrow> string \<Rightarrow> bool" where
  "EqualFold s t = (fold_case s = fold_case t)"

definition lookup_key :: "object \<Rightarrow> string \<Rightarrow> gval option" where
  "lookup_key m k =
     (case map_of m k of
        Some v \<Rightarrow> Some v
      | None \<Rightarrow> (case find (\<lambda>e. EqualFold (fst e) k) m of
                   Some e \<Rightarrow> Some (snd e)
                 | None \<Rightarrow> None))"

text \<open>The value a string field ends with, or \<open>None\<close> for a type error.\<close>

definition decode_string :: "object \<Rightarrow> string \<Rightarrow> string option" where
  "decode_string m k =
     (case lookup_key m k of
        None \<Rightarrow> Some []
      | Some Null \<Rightarrow> Some []
      | Some (Str s) \<Rightarrow> Some s
      | Some _ \<Rightarrow> None)"

definition string_field :: "object \<Rightarrow> string \<Rightarrow> string" where
  "string_field m k = (case decode_string m k of Some s \<Rightarrow> s | None \<Rightarrow> [])"

definition mapstructure_Decode_record :: "object \<Rightarrow> error + IPInterfaceGetDataModelONTAP" where
  "mapstructure_Decode_record m =
     (let errs = filter (\<lambda>k. decode_string m k = None) [''name'', ''scope'', ''svm.name'', ''uuid'']
      in if errs \<noteq> [] then Inl (mapstructure_Error errs)
         else Inr \<lparr>Name = string_field m ''name'', Scope = string_field m ''scope'',
                   SVMName = string_field m ''svm.name'', UUID = string_field m ''uuid''\<rparr>)"

text \<open>
  Encoding a struct into a map writes every tagged field under its key, zero-valued or
  not; only a field tagged \<^verbatim>\<open>omitempty\<close> is left out when it is empty (here: the two
  nil-able pointers of the location). A nested struct becomes a nested map. None of the
  fields can fail to encode, so the result is always \<open>Inr\<close>.
\<close>

definition mapstructure_Decode_filter :: "IPInterfaceGetDataModelONTAP \<Rightarrow> error + object" where
  "mapstructure_Decode_filter f =
     Inr [(''name'', Str (Name f)), (''scope'', Str (Scope f)),
          (''svm.name'', Str (SVMName f)), (''uuid'', Str (UUID f))]"

definition encode_HomeNode :: "IPInterfaceResourceHomeNode \<Rightarrow> gval" where
  "encode_HomeNode n = Object [(''name'', Str (HomeNode_Name n))]"

definition encode_HomePort :: "IPInterfaceResourceHomePort \<Rightarrow> gval" where
  "encode_HomePort p = Object [(''name'', Str (HomePort_Name p)), (''node'', encode_HomeNode (Node p))]"

definition encode_Location :: "IPInterfaceResourceLocation \<Rightarrow> gval" where
  "encode_Location l =
     Object ((case HomeNode l of None \<Rightarrow> [] | Some n \<Rightarrow> [(''home_node'', encode_HomeNode n)]) @
             (case HomePort l of None \<Rightarrow> [] | Some p \<Rightarrow> [(''home_port'', encode_HomePort p)]))"

definition mapstructure_Decode_body :: "IPInterfaceResourceBodyDataModelONTAP \<Rightarrow> error + object" where
  "mapstructure_Decode_body b =
     Inr [(''name'', Str (Body_Name b)),
          (''svm'', Object [(''name'', Str (Vserver_Name (SVM b)))]),
          (''ip'', Object [(''address'', Str (Address (IP b))), (''netmask'', Number (Netmask (IP b)))]),
          (''location'', encode_Location (Location b))]"

section \<open>The four operations\<close>

text \<open>
  Each operation takes the state of the remote system after its other arguments and
  returns its Go results with the state the one call to the client left. The calls to
  \<^verbatim>\<open>tflog.Debug\<close> write a log line and have no part in what an operation returns;
  they are left out.
\<close>

definition api :: string where
  "api = ''network/ip/interfaces''"

subsection \<open>\<^verbatim>\<open>GetIPInterface\<close> (lines 52--78)\<close>

text \<open>Lines 54--62: the query.\<close>

definition GetIPInterface_query :: "string \<Rightarrow> string \<Rightarrow> RestQuery" where
  "GetIPInterface_query name svmName =
     (let query = NewQuery;
          query = Set query ''name'' name;
          query = (if svmName = [] then Set query ''scope'' ''cluster''
                   else Set (Set query ''svm.name'' svmName) ''scope'' ''svm'')
      in Fields query [''name'', ''svm.name'', ''ip'', ''scope''])"

text \<open>Lines 63--77: the call and the handling of its three results.\<close>

definition GetIPInterface ::
  "ErrorHandler \<Rightarrow> 'w RestClient \<Rightarrow> string \<Rightarrow> string \<Rightarrow> 'w \<Rightarrow>
     (IPInterfaceGetDataModelONTAP option \<times> error option) \<times> 'w" where
  "GetIPInterface errorHandler r name svmName w =
     (case GetNilOrOneRecord r api (GetIPInterface_query name svmName) None w of
        ((statusCode, response, err), w') \<Rightarrow>
          (let err = (if err = None \<and> response = None
                      then Some (Errorf ''no response for GET %s'' [ArgString api]) else err)
           in case err of
                Some e \<Rightarrow>
                  ((None, Some (MakeAndReportError errorHandler
                      (Lit ''error reading ip_interface info'')
                      (Sprintf ''error on GET %s: %s, statusCode %d''
                         [ArgString api, ArgError e, ArgInt statusCode]))), w')
              | None \<Rightarrow>
                  (case mapstructure_Decode_record (map_entries response) of
                     Inl e \<Rightarrow>
                       ((None, Some (MakeAndReportError errorHandler
                           (Sprintf ''failed to decode response from GET %s'' [ArgString api])
                           (Sprintf ''error: %s, statusCode %d, response %#v''
                              [ArgError e, ArgInt statusCode, ArgMap response]))), w')
                   | Inr dataONTAP \<Rightarrow> ((Some dataONTAP, None), w'))))"

subsection \<open>\<^verbatim>\<open>GetIPInterfaces\<close> (lines 81--111)\<close>

text \<open>
  Lines 100--108: the loop over the records. \<open>dataONTAP\<close> starts as the nil slice;
  the first record that fails to decode ends the call.
\<close>

fun decode_records ::
  "ErrorHandler \<Rightarrow> int \<Rightarrow> object list \<Rightarrow> IPInterfaceGetDataModelONTAP slice \<Rightarrow>
     IPInterfaceGetDataModelONTAP slice \<times> error option" where
  "decode_records errorHandler statusCode [] dataONTAP = (dataONTAP, None)"
| "decode_records errorHandler statusCode (info # rest) dataONTAP =
     (case mapstructure_Decode_record info of
        Inl e \<Rightarrow>
          (None, Some (MakeAndReportError errorHandler
             (Sprintf ''failed to decode response from GET %s'' [ArgString api])
             (Sprintf ''error: %s, statusCode %d, info %#v''
                [ArgError e, ArgInt statusCode, ArgMap (Some info)])))
      | Inr rec \<Rightarrow>
          decode_records errorHandler statusCode rest (append_slice dataONTAP rec))"

text \<open>Lines 83--91: the query, or the error of flattening the filter.\<close>

definition GetIPInterfaces_query :: "IPInterfaceGetDataModelONTAP option \<Rightarrow> error + RestQuery" where
  "GetIPInterfaces_query filter' =
     (let query = NewQuery;
          query = Fields query [''name'', ''svm.name'', ''ip'', ''scope'']
      in case filter' of
           None \<Rightarrow> Inr query
         | Some f \<Rightarrow>
             (case mapstructure_Decode_filter f of
                Inl e \<Rightarrow> Inl e
              | Inr filterMap \<Rightarrow> Inr (SetValues query filterMap)))"

definition GetIPInterfaces ::
  "ErrorHandler \<Rightarrow> 'w RestClient \<Rightarrow> IPInterfaceGetDataModelONTAP option \<Rightarrow> 'w \<Rightarrow>
     (IPInterfaceGetDataModelONTAP slice \<times> error option) \<times> 'w" where
  "GetIPInterfaces errorHandler r filter' w =
     (case GetIPInterfaces_query filter' of
        Inl e \<Rightarrow>
          ((None, Some (MakeAndReportError errorHandler
              (Lit ''error encoding ip_interface filter info'')
              (Sprintf ''error on filter %#v: %s'' [ArgFilter filter', ArgError e]))), w)
      | Inr query \<Rightarrow>
          (case GetZeroOrMoreRecords r api query None w of
             ((statusCode, response, err), w') \<Rightarrow>
               (let err = (if err = None \<and> response = None
                           then Some (Errorf ''no response for GET %s'' [ArgString api]) else err)
                in case err of
                     Some e \<Rightarrow>
                       ((None, Some (MakeAndReportError errorHandler
                           (Lit ''error reading ip_interfaces info'')
                           (Sprintf ''error on GET %s: %s, statusCode %d''
                              [ArgString api, ArgError e, ArgInt statusCode]))), w')
                   | None \<Rightarrow>
                       (decode_records errorHandler statusCode (slice_elems response) None, w'))))"

subsection \<open>\<^verbatim>\<open>CreateIPInterface\<close> (lines 114--133)\<close>

text \<open>
  Line 128 indexes \<^verbatim>\<open>response.Records[0]\<close> with no check of the length: on a
  collection without elements the Go runtime panics, and the operation does not return.
\<close>

definition CreateIPInterface ::
  "ErrorHandler \<Rightarrow> 'w RestClient \<Rightarrow> IPInterfaceResourceBodyDataModelONTAP \<Rightarrow> 'w \<Rightarrow>
     (IPInterfaceGetDataModelONTAP option \<times> error option) outcome \<times> 'w" where
  "CreateIPInterface errorHandler r body w =
     (case mapstructure_Decode_body body of
        Inl e \<Rightarrow>
          (Returns (None, Some (MakeAndReportError errorHandler
              (Lit ''error encoding ip_interface body'')
              (Sprintf ''error on encoding %s body: %s, body: %#v''
                 [ArgString api, ArgError e, ArgBody body]))), w)
      | Inr bodyMap \<Rightarrow>
          (let query = NewQuery;
               query = Add query ''return_records'' ''true''
           in case CallCreateMethod r api query bodyMap w of
                ((statusCode, response, err), w') \<Rightarrow>
                  (case err of
                     Some e \<Rightarrow>
                       (Returns (None, Some (MakeAndReportError errorHandler
                           (Lit ''error creating ip_interface'')
                           (Sprintf ''error on POST %s: %s, statusCode %d''
                              [ArgString api, ArgError e, ArgInt statusCode]))), w')
                   | None \<Rightarrow>
                       (case slice_elems (Records response) of
                          [] \<Rightarrow> (Panics (IndexOutOfRange 0 0), w')
                        | first # _ \<Rightarrow>
                            (case mapstructure_Decode_record first of
                               Inl e \<Rightarrow>
                                 (Returns (None, Some (MakeAndReportError errorHandler
                                     (Lit ''error decoding ip_interface info'')
                                     (Sprintf ''error on decode storage/ip_interfaces info: %s, statusCode %d, response %#v''
                                        [ArgError e, ArgInt statusCode, ArgResponse response]))), w')
                             | Inr dataONTAP \<Rightarrow> (Returns (Some dataONTAP, None), w'))))))"

subsection \<open>\<^verbatim>\<open>DeleteIPInterface\<close> (lines 136--143)\<close>

definition DeleteIPInterface :: "ErrorHandler \<Rightarrow> 'w RestClient \<Rightarrow> string \<Rightarrow> 'w \<Rightarrow> error option \<times> 'w" where
  "DeleteIPInterface errorHandler r uuid w =
     (case CallDeleteMethod r (api @ ''/'' @ uuid) None None w of
        ((statusCode, _, err), w') \<Rightarrow>
          (case err of
             Some e \<Rightarrow>
               (Some (MakeAndReportError errorHandler
                  (Lit ''error deleting ip_interface'')
                  (Sprintf ''error on DELETE %s: %s, statusCode %d''
                     [ArgString api, ArgError e, ArgInt statusCode])), w')
           | None \<Rightarrow> (None, w')))"

section \<open>Test doubles and sample inputs\<close>

text \<open>
  A handler whose diagnostic is named by the summary it was given (the format string,
  for a formatted summary).
\<close>

definition diag_handler :: ErrorHandler where
  "diag_handler =
     \<lparr>MakeAndReportError = (\<lambda>summary detail. Error (case summary of Lit s \<Rightarrow> s | Sprintf f args \<Rightarrow> f))\<rparr>"

text \<open>A client that gives the same four answers whatever it is asked; it has no state.\<close>

definition fixed_client ::
  "(int \<times> object option \<times> error option) \<Rightarrow> (int \<times> object slice \<times> error option) \<Rightarrow>
   (int \<times> RestResponse \<times> error option) \<Rightarrow> (int \<times> RestResponse \<times> error option) \<Rightarrow> unit RestClient" where
  "fixed_client one many created deleted =
     \<lparr>GetNilOrOneRecord = (\<lambda>a q b w. (one, w)),
      GetZeroOrMoreRecords = (\<lambda>a q b w. (many, w)),
      CallCreateMethod = (\<lambda>a q b w. (created, w)),
      CallDeleteMethod = (\<lambda>a q b w. (deleted, w))\<rparr>"

text \<open>
  Modelled from the spec: the REST client and the remote system behind it are not part of
  the slice. This in-memory stand-in has as its state the list of the records that exist,
  each a flat list of key/value pairs. A get answers with the records that carry every
  parameter of the query: get-one with "a single decoded object or nil", and with an
  error when more than one record answers; get-many with the sequence of them. A create
  stores a record with the name and container of the body and a fresh identifier, and
  returns it. A delete removes the record that the path addresses ("the remote resource
  ceases to exist"), and fails with a non-2xx status when there is none.
\<close>

definition mem_matches :: "RestQuery \<Rightarrow> object \<Rightarrow> bool" where
  "mem_matches q rec = list_all (\<lambda>e. map_of rec (fst e) = Some (snd e)) (query_params q)"

definition mem_path :: "object \<Rightarrow> string" where
  "mem_path rec = api @ ''/'' @ string_field rec ''uuid''"

definition mem_created :: "object \<Rightarrow> object" where
  "mem_created body =
     [(''name'', Str (string_field body ''name'')),
      (''svm.name'', Str (case map_of body ''svm'' of Some (Object s) \<Rightarrow> string_field s ''name'' | _ \<Rightarrow> [])),
      (''scope'', Str ''svm''),
      (''uuid'', Str (''uuid-of-'' @ string_field body ''name''))]"

definition mem_client :: "object list RestClient" where
  "mem_client =
     \<lparr>GetNilOrOneRecord = (\<lambda>a q b w.
        case filter (mem_matches q) w of
          [] \<Rightarrow> ((200, None, None), w)
        | [x] \<Rightarrow> ((200, Some x, None), w)
        | _ \<Rightarrow> ((200, None, Some (Error ''more than one record'')), w)),
      GetZeroOrMoreRecords = (\<lambda>a q b w. ((200, Some (filter (mem_matches q) w), None), w)),
      CallCreateMethod = (\<lambda>a q body w.
        ((201, \<lparr>Records = Some [mem_created body]\<rparr>, None), w @ [mem_created body])),
      CallDeleteMethod = (\<lambda>path q b w.
        if list_ex (\<lambda>rec. mem_path rec = path) w
        then ((200, \<lparr>Records = None\<rparr>, None), filter (\<lambda>rec. mem_path rec \<noteq> path) w)
        else ((404, \<lparr>Records = None\<rparr>, Some (Error ''entry not found'')), w))\<rparr>"

text \<open>The specification and the records of the scenarios of the spec.\<close>

definition lif1_body :: IPInterfaceResourceBodyDataModelONTAP where
  "lif1_body = \<lparr>Body_Name = ''lif1'', SVM = \<lparr>Vserver_Name = ''vs1''\<rparr>,
                 IP = \<lparr>Address = ''10.0.0.5'', Netmask = 24\<rparr>,
                 Location = \<lparr>HomeNode = None, HomePort = None\<rparr>\<rparr>"

definition lif1_record :: object where
  "lif1_record = [(''name'', Str ''lif1''), (''svm.name'', Str ''vs1''), (''scope'', Str ''svm''),
                  (''uuid'', Str ''uuid-of-lif1'')]"

definition mgmt_record :: object where
  "mgmt_record = [(''name'', Str ''cluster_mgmt''), (''scope'', Str ''cluster''), (''uuid'', Str ''c0ffee''),
                  (''ip'', Object [(''address'', Str ''10.0.0.1''), (''netmask'', Str ''24'')])]"

definition bad_record :: object where
  "bad_record = [(''name'', Number 7), (''uuid'', Str ''bad'')]"

definition no_response :: RestResponse where
  "no_response = \<lparr>Records = None\<rparr>"



section \<open>A client that records the requests made through it\<close>

datatype request =
    GetOne string RestQuery "object option"
  | GetMany string RestQuery "object option"
  | Post string RestQuery object
  | Delete string "RestQuery option" "object option"

text \<open>
  \<open>recording r\<close> answers as \<open>r\<close> does, and appends every request it is given
  (the path, the query and the body) to a log kept beside the state of \<open>r\<close>.
\<close>

definition recording :: "'w RestClient \<Rightarrow> ('w \<times> request list) RestClient" where
  "recording r =
     \<lparr>GetNilOrOneRecord = (\<lambda>a q b s.
        case GetNilOrOneRecord r a q b (fst s) of (res, w') \<Rightarrow> (res, (w', snd s @ [GetOne a q b]))),
      GetZeroOrMoreRecords = (\<lambda>a q b s.
        case GetZeroOrMoreRecords r a q b (fst s) of (res, w') \<Rightarrow> (res, (w', snd s @ [GetMany a q b]))),
      CallCreateMethod = (\<lambda>a q b s.
        case CallCreateMethod r a q b (fst s) of (res, w') \<Rightarrow> (res, (w', snd s @ [Post a q b]))),
      CallDeleteMethod = (\<lambda>a q b s.
        case CallDeleteMethod r a q b (fst s) of (res, w') \<Rightarrow> (res, (w', snd s @ [Delete a q b])))\<rparr>"

section \<open>What a response loses when its \<^verbatim>\<open>ip\<close> entry is removed\<close>

definition without_ip :: "object \<Rightarrow> object" where
  "without_ip m = filter (\<lambda>e. fst e \<noteq> ''ip'') m"

text \<open>The same client, with the \<^verbatim>\<open>ip\<close> entry taken out of every record it returns to a read.\<close>

definition client_without_ip :: "'w RestClient \<Rightarrow> 'w RestClient" where
  "client_without_ip r =
     r\<lparr>GetNilOrOneRecord := (\<lambda>a q b w.
          case GetNilOrOneRecord r a q b w of
            ((statusCode, response, err), w') \<Rightarrow> ((statusCode, map_option without_ip response, err), w')),
       GetZeroOrMoreRecords := (\<lambda>a q b w.
          case GetZeroOrMoreRecords r a q b w of
            ((statusCode, response, err), w') \<Rightarrow>
              ((statusCode, map_option (map without_ip) response, err), w'))\<rparr>"

section \<open>Helper facts: one lemma for each path through an operation\<close>

lemma GetIPInterface_transport_error:
  "GetNilOrOneRecord r api (GetIPInterface_query name svmName) None w = ((statusCode, response, Some e), w') \<Longrightarrow>
   GetIPInterface eh r name svmName w =
     ((None, Some (MakeAndReportError eh (Lit ''error reading ip_interface info'')
        (Sprintf ''error on GET %s: %s, statusCode %d'' [ArgString api, ArgError e, ArgInt statusCode]))), w')"
  by (simp add: GetIPInterface_def)

lemma GetIPInterface_no_response:
  "GetNilOrOneRecord r api (GetIPInterface_query name svmName) None w = ((statusCode, None, None), w') \<Longrightarrow>
   GetIPInterface eh r name svmName w =
     ((None, Some (MakeAndReportError eh (Lit ''error reading ip_interface info'')
        (Sprintf ''error on GET %s: %s, statusCode %d''
           [ArgString api, ArgError (Errorf ''no response for GET %s'' [ArgString api]), ArgInt statusCode]))), w')"
  by (simp add: GetIPInterface_def)

lemma GetIPInterface_decode_error:
  "GetNilOrOneRecord r api (GetIPInterface_query name svmName) None w = ((statusCode, Some m, None), w') \<Longrightarrow>
   mapstructure_Decode_record m = Inl e \<Longrightarrow>
   GetIPInterface eh r name svmName w =
     ((None, Some (MakeAndReportError eh (Sprintf ''failed to decode response from GET %s'' [ArgString api])
        (Sprintf ''error: %s, statusCode %d, response %#v'' [ArgError e, ArgInt statusCode, ArgMap (Some m)]))), w')"
  by (simp add: GetIPInterface_def map_entries_def)

lemma GetIPInterface_success:
  "GetNilOrOneRecord r api (GetIPInterface_query name svmName) None w = ((statusCode, Some m, None), w') \<Longrightarrow>
   mapstructure_Decode_record m = Inr dataONTAP \<Longrightarrow>
   GetIPInterface eh r name svmName w = ((Some dataONTAP, None), w')"
  by (simp add: GetIPInterface_def map_entries_def)

lemma GetIPInterface_outcome:
  "(\<exists>dataONTAP. fst (GetIPInterface eh r name svmName w) = (Some dataONTAP, None)) \<or>
   (\<exists>summary detail. fst (GetIPInterface eh r name svmName w) = (None, Some (MakeAndReportError eh summary detail)))"
proof -
  obtain statusCode response err w' where
    g: "GetNilOrOneRecord r api (GetIPInterface_query name svmName) None w = ((statusCode, response, err), w')"
    by (metis prod_cases3 surj_pair)
  show ?thesis
  proof (cases err)
    case (Some e)
    with g GetIPInterface_transport_error [of r name svmName w statusCode response e w' eh]
    show ?thesis by auto
  next
    case None
    note no_err = this
    show ?thesis
    proof (cases response)
      case None
      with g no_err GetIPInterface_no_response [of r name svmName w statusCode w' eh]
      show ?thesis by auto
    next
      case (Some m)
      show ?thesis
      proof (cases "mapstructure_Decode_record m")
        case (Inl e)
        with g no_err Some GetIPInterface_decode_error [of r name svmName w statusCode m w' e eh]
        show ?thesis by auto
      next
        case (Inr d)
        with g no_err Some GetIPInterface_success [of r name svmName w statusCode m w' d eh]
        show ?thesis by auto
      qed
    qed
  qed
qed

text \<open>Flattening a struct cannot fail: the two encode-error branches are never taken.\<close>

lemma mapstructure_Decode_filter_total: "mapstructure_Decode_filter f \<noteq> Inl e"
  by (simp add: mapstructure_Decode_filter_def)

lemma mapstructure_Decode_body_total: "mapstructure_Decode_body b \<noteq> Inl e"
  by (simp add: mapstructure_Decode_body_def)

lemma GetIPInterfaces_query_total: "\<exists>q. GetIPInterfaces_query filter' = Inr q"
  by (cases filter') (simp_all add: GetIPInterfaces_query_def mapstructure_Decode_filter_def)

lemma decode_records_fail:
  "info \<in> set rs \<Longrightarrow> mapstructure_Decode_record info = Inl e \<Longrightarrow>
   \<exists>summary detail. decode_records eh sc rs acc = (None, Some (MakeAndReportError eh summary detail))"
proof (induction rs arbitrary: acc)
  case Nil
  then show ?case by simp
next
  case (Cons x xs)
  show ?case
  proof (cases "mapstructure_Decode_record x")
    case (Inl a)
    then show ?thesis by auto
  next
    case (Inr d)
    with Cons.prems have "info \<in> set xs" by auto
    from Cons.IH [OF this Cons.prems(2)] Inr show ?thesis by simp
  qed
qed

lemma decode_records_ok:
  "map mapstructure_Decode_record rs = map Inr ds \<Longrightarrow>
   decode_records eh sc rs acc = ((if ds = [] then acc else Some (slice_elems acc @ ds)), None)"
proof (induction rs arbitrary: acc ds)
  case Nil
  then show ?case by simp
next
  case (Cons x xs)
  then obtain d ds' where ds: "ds = d # ds'" "mapstructure_Decode_record x = Inr d"
    "map mapstructure_Decode_record xs = map Inr ds'"
    by (cases ds) auto
  from Cons.IH [OF ds(3), of "append_slice acc d"] ds(1,2)
  show ?case by (simp add: append_slice_def slice_elems_def)
qed

lemma decode_records_outcome:
  "(\<exists>dataONTAP. decode_records eh sc rs acc = (dataONTAP, None)) \<or>
   (\<exists>summary detail. decode_records eh sc rs acc = (None, Some (MakeAndReportError eh summary detail)))"
proof (induction rs arbitrary: acc)
  case Nil
  then show ?case by simp
next
  case (Cons x xs)
  show ?case
  proof (cases "mapstructure_Decode_record x")
    case (Inl a)
    then show ?thesis by auto
  next
    case (Inr d)
    with Cons.IH [of "append_slice acc d"] show ?thesis by simp
  qed
qed

lemma GetIPInterfaces_records:
  "GetIPInterfaces_query filter' = Inr q \<Longrightarrow>
   GetZeroOrMoreRecords r api q None w = ((statusCode, Some rs, None), w') \<Longrightarrow>
   GetIPInterfaces eh r filter' w = (decode_records eh statusCode rs None, w')"
  by (simp add: GetIPInterfaces_def slice_elems_def)

lemma GetIPInterfaces_transport_error:
  "GetIPInterfaces_query filter' = Inr q \<Longrightarrow>
   GetZeroOrMoreRecords r api q None w = ((statusCode, response, Some e), w') \<Longrightarrow>
   GetIPInterfaces eh r filter' w =
     ((None, Some (MakeAndReportError eh (Lit ''error reading ip_interfaces info'')
        (Sprintf ''error on GET %s: %s, statusCode %d'' [ArgString api, ArgError e, ArgInt statusCode]))), w')"
  by (simp add: GetIPInterfaces_def)

lemma GetIPInterfaces_no_response:
  "GetIPInterfaces_query filter' = Inr q \<Longrightarrow>
   GetZeroOrMoreRecords r api q None w = ((statusCode, None, None), w') \<Longrightarrow>
   GetIPInterfaces eh r filter' w =
     ((None, Some (MakeAndReportError eh (Lit ''error reading ip_interfaces info'')
        (Sprintf ''error on GET %s: %s, statusCode %d''
           [ArgString api, ArgError (Errorf ''no response for GET %s'' [ArgString api]), ArgInt statusCode]))), w')"
  by (simp add: GetIPInterfaces_def)

lemma GetIPInterfaces_outcome:
  "(\<exists>dataONTAP. fst (GetIPInterfaces eh r filter' w) = (dataONTAP, None)) \<or>
   (\<exists>summary detail. fst (GetIPInterfaces eh r filter' w) = (None, Some (MakeAndReportError eh summary detail)))"
proof -
  obtain q where q: "GetIPInterfaces_query filter' = Inr q"
    using GetIPInterfaces_query_total by blast
  obtain statusCode response err w' where
    g: "GetZeroOrMoreRecords r api q None w = ((statusCode, response, err), w')"
    by (metis prod_cases3 surj_pair)
  show ?thesis
  proof (cases err)
    case (Some e)
    with q g GetIPInterfaces_transport_error [of filter' q r w statusCode response e w' eh]
    show ?thesis by auto
  next
    case None
    note no_err = this
    show ?thesis
    proof (cases response)
      case None
      with q g no_err GetIPInterfaces_no_response [of filter' q r w statusCode w' eh]
      show ?thesis by auto
    next
      case (Some rs)
      with q g no_err GetIPInterfaces_records [of filter' q r w statusCode rs w' eh]
        decode_records_outcome [of eh statusCode rs None]
      show ?thesis by auto
    qed
  qed
qed

lemma CreateIPInterface_transport_error:
  "mapstructure_Decode_body body = Inr bodyMap \<Longrightarrow>
   CallCreateMethod r api (Add NewQuery ''return_records'' ''true'') bodyMap w = ((statusCode, response, Some e), w') \<Longrightarrow>
   CreateIPInterface eh r body w =
     (Returns (None, Some (MakeAndReportError eh (Lit ''error creating ip_interface'')
        (Sprintf ''error on POST %s: %s, statusCode %d'' [ArgString api, ArgError e, ArgInt statusCode]))), w')"
  by (simp add: CreateIPInterface_def)

lemma CreateIPInterface_empty_records:
  "mapstructure_Decode_body body = Inr bodyMap \<Longrightarrow>
   CallCreateMethod r api (Add NewQuery ''return_records'' ''true'') bodyMap w = ((statusCode, response, None), w') \<Longrightarrow>
   slice_elems (Records response) = [] \<Longrightarrow>
   CreateIPInterface eh r body w = (Panics (IndexOutOfRange 0 0), w')"
  by (simp add: CreateIPInterface_def)

lemma CreateIPInterface_decode_error:
  "mapstructure_Decode_body body = Inr bodyMap \<Longrightarrow>
   CallCreateMethod r api (Add NewQuery ''return_records'' ''true'') bodyMap w = ((statusCode, response, None), w') \<Longrightarrow>
   slice_elems (Records response) = first # rest \<Longrightarrow>
   mapstructure_Decode_record first = Inl e \<Longrightarrow>
   CreateIPInterface eh r body w =
     (Returns (None, Some (MakeAndReportError eh (Lit ''error decoding ip_interface info'')
        (Sprintf ''error on decode storage/ip_interfaces info: %s, statusCode %d, response %#v''
           [ArgError e, ArgInt statusCode, ArgResponse response]))), w')"
  by (simp add: CreateIPInterface_def)

lemma CreateIPInterface_success:
  "mapstructure_Decode_body body = Inr bodyMap \<Longrightarrow>
   CallCreateMethod r api (Add NewQuery ''return_records'' ''true'') bodyMap w = ((statusCode, response, None), w') \<Longrightarrow>
   slice_elems (Records response) = first # rest \<Longrightarrow>
   mapstructure_Decode_record first = Inr dataONTAP \<Longrightarrow>
   CreateIPInterface eh r body w = (Returns (Some dataONTAP, None), w')"
  by (simp add: CreateIPInterface_def)

lemma CreateIPInterface_outcome:
  "(\<exists>dataONTAP. fst (CreateIPInterface eh r body w) = Returns (Some dataONTAP, None)) \<or>
   (\<exists>summary detail. fst (CreateIPInterface eh r body w) = Returns (None, Some (MakeAndReportError eh summary detail))) \<or>
   fst (CreateIPInterface eh r body w) = Panics (IndexOutOfRange 0 0)"
proof -
  obtain bodyMap where b: "mapstructure_Decode_body body = Inr bodyMap"
    by (simp add: mapstructure_Decode_body_def)
  obtain statusCode response err w' where
    c: "CallCreateMethod r api (Add NewQuery ''return_records'' ''true'') bodyMap w = ((statusCode, response, err), w')"
    by (metis prod_cases3 surj_pair)
  show ?thesis
  proof (cases err)
    case (Some e)
    with b c CreateIPInterface_transport_error [of body bodyMap r w statusCode response e w' eh]
    show ?thesis by (metis fst_conv)
  next
    case None
    note no_err = this
    show ?thesis
    proof (cases "slice_elems (Records response)")
      case Nil
      with b c no_err CreateIPInterface_empty_records [of body bodyMap r w statusCode response w' eh]
      show ?thesis by simp
    next
      case (Cons first rest)
      show ?thesis
      proof (cases "mapstructure_Decode_record first")
        case (Inl e)
        with b c no_err Cons
          CreateIPInterface_decode_error [of body bodyMap r w statusCode response w' first rest e eh]
        show ?thesis by (metis fst_conv)
      next
        case (Inr d)
        with b c no_err Cons
          CreateIPInterface_success [of body bodyMap r w statusCode response w' first rest d eh]
        show ?thesis by simp
      qed
    qed
  qed
qed

lemma DeleteIPInterface_error:
  "CallDeleteMethod r (api @ ''/'' @ uuid) None None w = ((statusCode, response, Some e), w') \<Longrightarrow>
   DeleteIPInterface eh r uuid w =
     (Some (MakeAndReportError eh (Lit ''error deleting ip_interface'')
        (Sprintf ''error on DELETE %s: %s, statusCode %d'' [ArgString api, ArgError e, ArgInt statusCode])), w')"
  by (simp add: DeleteIPInterface_def)

lemma DeleteIPInterface_success:
  "CallDeleteMethod r (api @ ''/'' @ uuid) None None w = ((statusCode, response, None), w') \<Longrightarrow>
   DeleteIPInterface eh r uuid w = (None, w')"
  by (simp add: DeleteIPInterface_def)

lemma DeleteIPInterface_outcome:
  "fst (DeleteIPInterface eh r uuid w) = None \<or>
   (\<exists>summary detail. fst (DeleteIPInterface eh r uuid w) = Some (MakeAndReportError eh summary detail))"
proof -
  obtain statusCode response err w' where
    d: "CallDeleteMethod r (api @ ''/'' @ uuid) None None w = ((statusCode, response, err), w')"
    by (metis prod_cases3 surj_pair)
  show ?thesis
  proof (cases err)
    case None
    with d DeleteIPInterface_success [of r uuid w statusCode response w' eh] show ?thesis by simp
  next
    case (Some e)
    with d DeleteIPInterface_error [of r uuid w statusCode response e w' eh] show ?thesis
      by (metis fst_conv)
  qed
qed

lemma not_fold_ip:
  "\<not> EqualFold ''ip'' ''name''" "\<not> EqualFold ''ip'' ''scope''"
  "\<not> EqualFold ''ip'' ''svm.name''" "\<not> EqualFold ''ip'' ''uuid''"
  by (simp_all add: EqualFold_def)

lemma map_of_without_ip: "k \<noteq> ''ip'' \<Longrightarrow> map_of (without_ip m) k = map_of m k"
  by (induction m) (auto simp: without_ip_def)

lemma find_without_ip:
  "\<not> EqualFold ''ip'' k \<Longrightarrow>
   find (\<lambda>e. EqualFold (fst e) k) (without_ip m) = find (\<lambda>e. EqualFold (fst e) k) m"
  by (induction m) (auto simp: without_ip_def)

lemma lookup_key_without_ip:
  "k \<noteq> ''ip'' \<Longrightarrow> \<not> EqualFold ''ip'' k \<Longrightarrow> lookup_key (without_ip m) k = lookup_key m k"
  by (simp add: lookup_key_def map_of_without_ip find_without_ip cong: option.case_cong)

lemma decode_string_without_ip:
  "k \<in> set [''name'', ''scope'', ''svm.name'', ''uuid''] \<Longrightarrow>
   decode_string (without_ip m) k = decode_string m k"
  using not_fold_ip by (auto simp: decode_string_def lookup_key_without_ip)

lemma Decode_record_without_ip:
  "mapstructure_Decode_record (without_ip m) = mapstructure_Decode_record m"
proof -
  have "filter (\<lambda>k. decode_string (without_ip m) k = None) [''name'', ''scope'', ''svm.name'', ''uuid'']
      = filter (\<lambda>k. decode_string m k = None) [''name'', ''scope'', ''svm.name'', ''uuid'']"
    by (rule filter_cong) (simp_all only: decode_string_without_ip)
  moreover have "\<And>k. k \<in> set [''name'', ''scope'', ''svm.name'', ''uuid''] \<Longrightarrow>
      string_field (without_ip m) k = string_field m k"
    by (simp only: string_field_def decode_string_without_ip)
  ultimately show ?thesis
    by (simp add: mapstructure_Decode_record_def)
qed

lemma decode_records_without_ip:
  "fst (decode_records eh sc (map without_ip rs) acc) = fst (decode_records eh sc rs acc)"
  by (induction rs arbitrary: acc) (auto simp: Decode_record_without_ip split: sum.splits)

lemma GetIPInterface_without_ip:
  "fst (fst (GetIPInterface eh (client_without_ip r) name svmName w)) =
   fst (fst (GetIPInterface eh r name svmName w))"
  by (cases "GetNilOrOneRecord r api (GetIPInterface_query name svmName) None w")
     (auto simp: GetIPInterface_def client_without_ip_def map_entries_def Decode_record_without_ip Let_def
           split: option.splits sum.splits)

lemma GetIPInterfaces_without_ip:
  "fst (fst (GetIPInterfaces eh (client_without_ip r) filter' w)) =
   fst (fst (GetIPInterfaces eh r filter' w))"
proof -
  obtain q where q: "GetIPInterfaces_query filter' = Inr q"
    using GetIPInterfaces_query_total by blast
  obtain sc resp err w' where g: "GetZeroOrMoreRecords r api q None w = ((sc, resp, err), w')"
    by (metis prod_cases3 surj_pair)
  show ?thesis
  proof (cases err)
    case (Some e)
    with q g show ?thesis by (simp add: GetIPInterfaces_def client_without_ip_def)
  next
    case None
    note no_err = this
    show ?thesis
    proof (cases resp)
      case None
      with q g no_err show ?thesis by (simp add: GetIPInterfaces_def client_without_ip_def)
    next
      case (Some rs)
      with q g no_err decode_records_without_ip [of eh sc rs None]
      show ?thesis by (simp add: GetIPInterfaces_def client_without_ip_def slice_elems_def)
    qed
  qed
qed

text \<open>What the recording client adds to an operation: the one request the operation makes.\<close>

lemma GetIPInterface_recording:
  "GetIPInterface eh (recording r) name svmName (w, log) =
     (fst (GetIPInterface eh r name svmName w),
      (snd (GetIPInterface eh r name svmName w), log @ [GetOne api (GetIPInterface_query name svmName) None]))"
proof -
  obtain statusCode response err w' where
    g: "GetNilOrOneRecord r api (GetIPInterface_query name svmName) None w = ((statusCode, response, err), w')"
    by (metis prod_cases3 surj_pair)
  then have "GetNilOrOneRecord (recording r) api (GetIPInterface_query name svmName) None (w, log) =
      ((statusCode, response, err), (w', log @ [GetOne api (GetIPInterface_query name svmName) None]))"
    by (simp add: recording_def)
  with g show ?thesis
    by (simp add: GetIPInterface_def Let_def split: option.splits sum.splits)
qed

lemma GetIPInterface_query_eval:
  "GetIPInterface_query name svmName =
     (if svmName = []
      then [QSet ''name'' name, QSet ''scope'' ''cluster'', QFields [''name'', ''svm.name'', ''ip'', ''scope'']]
      else [QSet ''name'' name, QSet ''svm.name'' svmName, QSet ''scope'' ''svm'',
            QFields [''name'', ''svm.name'', ''ip'', ''scope'']])"
  by (simp add: GetIPInterface_query_def NewQuery_def Set_def Fields_def)

lemma GetIPInterfaces_query_flattens_every_field:
  "GetIPInterfaces_query (Some f) =
     Inr [QFields [''name'', ''svm.name'', ''ip'', ''scope''],
          QSetValues [(''name'', Str (Name f)), (''scope'', Str (Scope f)),
                      (''svm.name'', Str (SVMName f)), (''uuid'', Str (UUID f))]]"
  by (simp add: GetIPInterfaces_query_def mapstructure_Decode_filter_def NewQuery_def Fields_def
        SetValues_def)

text \<open>The in-memory system: what a delete that succeeded has done to its state.\<close>

lemma mem_delete_succeeded:
  "DeleteIPInterface eh mem_client uuid w = (None, w1) \<Longrightarrow>
   w1 = filter (\<lambda>rec. string_field rec ''uuid'' \<noteq> uuid) w \<and>
   (\<exists>rec \<in> set w. string_field rec ''uuid'' = uuid)"
  by (auto simp: DeleteIPInterface_def mem_client_def mem_path_def list_ex_iff split: if_splits)

lemma mem_get_one_nothing:
  "filter (mem_matches q) w = [] \<Longrightarrow>
   GetNilOrOneRecord mem_client a q b w = ((200, None, None), w)"
  by (simp add: mem_client_def)

section \<open>The claims\<close>

subsection \<open>Failure paths\<close>

text \<open>
  C1. Every operation, for every failure cause (transport error, empty response, encode
  failure, decode failure), is to return a nil result with a non-nil error made by
  \<^verbatim>\<open>MakeAndReportError\<close>. The lemmas of the previous section show this for each path
  that ends in a \<^verbatim>\<open>return\<close>. The create operation has one path that does not: when
  the create call succeeds with a records collection of length zero, the operation
  returns nothing at all, it panics. Evaluated at such a response:
\<close>

theorem CreateIPInterface_faults_on_empty_records:
  "CreateIPInterface diag_handler
     (fixed_client (200, None, None) (200, None, None) (201, \<lparr>Records = Some []\<rparr>, None) (200, no_response, None))
     lif1_body () = (Panics (IndexOutOfRange 0 0), ())"
  by (simp add: CreateIPInterface_def mapstructure_Decode_body_def fixed_client_def slice_elems_def)

text \<open>
  C2. In create, when the create call itself succeeds (nil error) and the records
  collection of the response has no element, the operation reads
  \<^verbatim>\<open>response.Records[0]\<close> all the same: it faults with an index out of range and
  returns no result and no error.
\<close>

theorem CreateIPInterface_index_out_of_range:
  "mapstructure_Decode_body body = Inr bodyMap \<Longrightarrow>
   CallCreateMethod r api [QAdd ''return_records'' ''true''] bodyMap w = ((statusCode, response, None), w') \<Longrightarrow>
   slice_elems (Records response) = [] \<Longrightarrow>
   CreateIPInterface errorHandler r body w = (Panics (IndexOutOfRange 0 0), w') \<and>
   (\<forall>result. fst (CreateIPInterface errorHandler r body w) \<noteq> Returns result)"
  using CreateIPInterface_empty_records [of body bodyMap r w statusCode response w' errorHandler]
  by (simp add: Add_def NewQuery_def)

theorem CreateIPInterface_index_out_of_range_witness:
  "CallCreateMethod (fixed_client (200, None, None) (200, None, None) (201, no_response, None) (200, no_response, None))
     api [QAdd ''return_records'' ''true'']
     [(''name'', Str ''lif1''), (''svm'', Object [(''name'', Str ''vs1'')]),
      (''ip'', Object [(''address'', Str ''10.0.0.5''), (''netmask'', Number 24)]),
      (''location'', Object [])] () = ((201, no_response, None), ()) \<and>
   slice_elems (Records no_response) = [] \<and>
   CreateIPInterface diag_handler
     (fixed_client (200, None, None) (200, None, None) (201, no_response, None) (200, no_response, None))
     lif1_body () = (Panics (IndexOutOfRange 0 0), ())"
  using CreateIPInterface_index_out_of_range
    [of lif1_body "[(''name'', Str ''lif1''), (''svm'', Object [(''name'', Str ''vs1'')]),
      (''ip'', Object [(''address'', Str ''10.0.0.5''), (''netmask'', Number 24)]),
      (''location'', Object [])]"
      "fixed_client (200, None, None) (200, None, None) (201, no_response, None) (200, no_response, None)"
      "()" 201 no_response "()" diag_handler]
  by (simp add: mapstructure_Decode_body_def lif1_body_def encode_Location_def fixed_client_def
        no_response_def slice_elems_def)

text \<open>
  C4. Whenever \<^verbatim>\<open>GetNilOrOneRecord\<close> answers get-one with a nil response and a nil
  error, get-one returns a nil result with a non-nil error (the diagnostic for
  "no response for GET"); and whatever the client answers, get-one never returns the
  pair of a nil result and a nil error.
\<close>

theorem GetIPInterface_never_nil_nil:
  "(GetNilOrOneRecord r api (GetIPInterface_query name svmName) None w = ((statusCode, None, None), w') \<longrightarrow>
      GetIPInterface errorHandler r name svmName w =
        ((None, Some (MakeAndReportError errorHandler (Lit ''error reading ip_interface info'')
           (Sprintf ''error on GET %s: %s, statusCode %d''
              [ArgString api, ArgError (Errorf ''no response for GET %s'' [ArgString api]),
               ArgInt statusCode]))), w')) \<and>
   fst (GetIPInterface errorHandler r name svmName w) \<noteq> (None, None)"
  using GetIPInterface_outcome [of errorHandler r name svmName w]
    GetIPInterface_no_response [of r name svmName w statusCode w' errorHandler]
  by auto

theorem GetIPInterface_never_nil_nil_witness:
  "GetNilOrOneRecord (fixed_client (200, None, None) (200, None, None) (201, no_response, None) (200, no_response, None))
     api (GetIPInterface_query ''lif1'' ''vs1'') None () = ((200, None, None), ()) \<and>
   GetIPInterface diag_handler
     (fixed_client (200, None, None) (200, None, None) (201, no_response, None) (200, no_response, None))
     ''lif1'' ''vs1'' () = ((None, Some (Error ''error reading ip_interface info'')), ())"
  using GetIPInterface_never_nil_nil
    [of "fixed_client (200, None, None) (200, None, None) (201, no_response, None) (200, no_response, None)"
        "''lif1''" "''vs1''" "()" 200 "()" diag_handler]
  by (simp add: fixed_client_def diag_handler_def)

subsection \<open>Queries\<close>

text \<open>
  C9. For every name, get-one with an empty container makes its request with the query
  name=<name>, scope=cluster, with no svm.name parameter; with a non-empty container c it
  makes it with name=<name>, svm.name=<c>, scope=svm. Both requests select exactly the
  fields name, svm.name, ip, scope. Stated of the operation run through a recording
  client, whatever client is recorded: the log holds this one request and nothing else,
  and the results and the remote state are those of the recorded client.
\<close>

theorem GetIPInterface_query_scope:
  "snd (snd (GetIPInterface errorHandler (recording r) name [] (w, []))) =
     [GetOne ''network/ip/interfaces''
        [QSet ''name'' name, QSet ''scope'' ''cluster'', QFields [''name'', ''svm.name'', ''ip'', ''scope'']]
        None] \<and>
   (c \<noteq> [] \<longrightarrow>
    snd (snd (GetIPInterface errorHandler (recording r) name c (w, []))) =
      [GetOne ''network/ip/interfaces''
         [QSet ''name'' name, QSet ''svm.name'' c, QSet ''scope'' ''svm'',
          QFields [''name'', ''svm.name'', ''ip'', ''scope'']]
         None]) \<and>
   fst (GetIPInterface errorHandler (recording r) name c (w, [])) =
     fst (GetIPInterface errorHandler r name c w) \<and>
   fst (snd (GetIPInterface errorHandler (recording r) name c (w, []))) =
     snd (GetIPInterface errorHandler r name c w)"
  by (simp add: GetIPInterface_recording GetIPInterface_query_eval api_def)

theorem GetIPInterface_query_scope_witness:
  "''vs1'' \<noteq> [] \<and>
   snd (snd (GetIPInterface diag_handler
      (recording (fixed_client (200, Some lif1_record, None) (200, None, None) (201, no_response, None)
         (200, no_response, None)))
      ''lif1'' [] ((), []))) =
     [GetOne ''network/ip/interfaces''
        [QSet ''name'' ''lif1'', QSet ''scope'' ''cluster'', QFields [''name'', ''svm.name'', ''ip'', ''scope'']]
        None] \<and>
   snd (snd (GetIPInterface diag_handler
      (recording (fixed_client (200, Some lif1_record, None) (200, None, None) (201, no_response, None)
         (200, no_response, None)))
      ''lif1'' ''vs1'' ((), []))) =
     [GetOne ''network/ip/interfaces''
        [QSet ''name'' ''lif1'', QSet ''svm.name'' ''vs1'', QSet ''scope'' ''svm'',
         QFields [''name'', ''svm.name'', ''ip'', ''scope'']]
        None]"
  using GetIPInterface_query_scope
    [of diag_handler
      "fixed_client (200, Some lif1_record, None) (200, None, None) (201, no_response, None)
         (200, no_response, None)"
      "''lif1''" "()" "''vs1''"]
  by simp


subsection \<open>Reading many records\<close>

text \<open>
  C6. When some record of a get-many response fails to decode, the whole call fails:
  the result is nil and the error is a diagnostic; the records decoded before the
  failure are not returned.
\<close>

theorem GetIPInterfaces_all_or_nothing:
  "GetIPInterfaces_query filter' = Inr query \<Longrightarrow>
   GetZeroOrMoreRecords r api query None w = ((statusCode, response, None), w') \<Longrightarrow>
   info \<in> set (slice_elems response) \<Longrightarrow>
   mapstructure_Decode_record info = Inl e \<Longrightarrow>
   \<exists>summary detail.
     GetIPInterfaces errorHandler r filter' w =
       ((None, Some (MakeAndReportError errorHandler summary detail)), w')"
proof -
  assume q: "GetIPInterfaces_query filter' = Inr query"
    and g: "GetZeroOrMoreRecords r api query None w = ((statusCode, response, None), w')"
    and i: "info \<in> set (slice_elems response)"
    and d: "mapstructure_Decode_record info = Inl e"
  from i obtain rs where rs: "response = Some rs" "info \<in> set rs"
    by (cases response) (auto simp: slice_elems_def)
  from decode_records_fail [OF rs(2) d, of errorHandler statusCode None]
    GetIPInterfaces_records [OF q, of r w statusCode rs w' errorHandler] g rs(1)
  show ?thesis by auto
qed

theorem GetIPInterfaces_all_or_nothing_witness:
  "GetIPInterfaces_query None = Inr [QFields [''name'', ''svm.name'', ''ip'', ''scope'']] \<and>
   bad_record \<in> set (slice_elems (Some [lif1_record, bad_record, mgmt_record])) \<and>
   mapstructure_Decode_record bad_record = Inl (mapstructure_Error [''name'']) \<and>
   (\<exists>summary detail.
      GetIPInterfaces diag_handler
        (fixed_client (200, None, None) (200, Some [lif1_record, bad_record, mgmt_record], None)
           (201, no_response, None) (200, no_response, None))
        None () = ((None, Some (MakeAndReportError diag_handler summary detail)), ()))"
proof -
  have q: "GetIPInterfaces_query None = Inr [QFields [''name'', ''svm.name'', ''ip'', ''scope'']]"
    by (simp add: GetIPInterfaces_query_def NewQuery_def Fields_def)
  have i: "bad_record \<in> set (slice_elems (Some [lif1_record, bad_record, mgmt_record]))"
    by (simp add: slice_elems_def)
  have d: "mapstructure_Decode_record bad_record = Inl (mapstructure_Error [''name''])"
    by (simp add: mapstructure_Decode_record_def bad_record_def decode_string_def lookup_key_def
          EqualFold_def)
  have g: "GetZeroOrMoreRecords
        (fixed_client (200, None, None) (200, Some [lif1_record, bad_record, mgmt_record], None)
           (201, no_response, None) (200, no_response, None))
        api [QFields [''name'', ''svm.name'', ''ip'', ''scope'']] None ()
      = ((200, Some [lif1_record, bad_record, mgmt_record], None), ())"
    by (simp add: fixed_client_def)
  from GetIPInterfaces_all_or_nothing [OF q g i d, of diag_handler] q i d
  show ?thesis by simp
qed

text \<open>
  C5, as the code has it. When the transport answers get-many with a non-nil sequence of
  records that all decode, the call returns their decodings in the order of the response,
  with a nil error; for a sequence of length zero the result is the nil slice (the loop
  never appends to it), which is a sequence of length zero too.
\<close>

theorem GetIPInterfaces_keeps_order:
  "GetIPInterfaces_query filter' = Inr query \<Longrightarrow>
   GetZeroOrMoreRecords r api query None w = ((statusCode, Some rs, None), w') \<Longrightarrow>
   map mapstructure_Decode_record rs = map Inr ds \<Longrightarrow>
   GetIPInterfaces errorHandler r filter' w = ((if ds = [] then None else Some ds, None), w') \<and>
   slice_elems (fst (fst (GetIPInterfaces errorHandler r filter' w))) = ds"
  using GetIPInterfaces_records [of filter' query r w statusCode rs w' errorHandler]
    decode_records_ok [of rs ds errorHandler statusCode None]
  by (simp add: slice_elems_def)

theorem GetIPInterfaces_keeps_order_witness:
  "GetIPInterfaces_query None = Inr [QFields [''name'', ''svm.name'', ''ip'', ''scope'']] \<and>
   map mapstructure_Decode_record [mgmt_record, lif1_record] =
     map Inr [\<lparr>Name = ''cluster_mgmt'', Scope = ''cluster'', SVMName = [], UUID = ''c0ffee''\<rparr>,
              \<lparr>Name = ''lif1'', Scope = ''svm'', SVMName = ''vs1'', UUID = ''uuid-of-lif1''\<rparr>] \<and>
   GetIPInterfaces diag_handler
     (fixed_client (200, None, None) (200, Some [mgmt_record, lif1_record], None)
        (201, no_response, None) (200, no_response, None))
     None () =
     ((Some [\<lparr>Name = ''cluster_mgmt'', Scope = ''cluster'', SVMName = [], UUID = ''c0ffee''\<rparr>,
             \<lparr>Name = ''lif1'', Scope = ''svm'', SVMName = ''vs1'', UUID = ''uuid-of-lif1''\<rparr>], None), ())"
proof -
  have q: "GetIPInterfaces_query None = Inr [QFields [''name'', ''svm.name'', ''ip'', ''scope'']]"
    by (simp add: GetIPInterfaces_query_def NewQuery_def Fields_def)
  have g: "GetZeroOrMoreRecords
        (fixed_client (200, None, None) (200, Some [mgmt_record, lif1_record], None)
           (201, no_response, None) (200, no_response, None))
        api [QFields [''name'', ''svm.name'', ''ip'', ''scope'']] None ()
      = ((200, Some [mgmt_record, lif1_record], None), ())"
    by (simp add: fixed_client_def)
  have d: "map mapstructure_Decode_record [mgmt_record, lif1_record] =
     map Inr [\<lparr>Name = ''cluster_mgmt'', Scope = ''cluster'', SVMName = [], UUID = ''c0ffee''\<rparr>,
              \<lparr>Name = ''lif1'', Scope = ''svm'', SVMName = ''vs1'', UUID = ''uuid-of-lif1''\<rparr>]"
    by (simp add: mapstructure_Decode_record_def mgmt_record_def lif1_record_def decode_string_def
          string_field_def lookup_key_def EqualFold_def)
  from GetIPInterfaces_keeps_order [OF q g d, of diag_handler] q d
  show ?thesis by simp
qed

text \<open>
  The claim as it was stated (an empty result is returned as an empty sequence, not as a
  nil one) fails on an empty, non-nil response: what comes back is the nil slice.
\<close>

theorem GetIPInterfaces_empty_response_gives_nil:
  "fst (GetIPInterfaces diag_handler
          (fixed_client (200, None, None) (200, Some [], None) (201, no_response, None) (200, no_response, None))
          None ()) = (None, None) \<and>
   fst (GetIPInterfaces diag_handler
          (fixed_client (200, None, None) (200, Some [], None) (201, no_response, None) (200, no_response, None))
          None ()) \<noteq> (Some [], None)"
  by (simp add: GetIPInterfaces_def GetIPInterfaces_query_def NewQuery_def Fields_def fixed_client_def
        slice_elems_def)

subsection \<open>Delete, then read\<close>

text \<open>
  C3, as the code has it. After a delete that succeeded, a get-one with the name and the
  owning container of the deleted record (every record that answers to them carried the
  identifier that was deleted) returns a nil result together with a non-nil error, the
  diagnostic for "no response for GET": not a stale record, and not a nil result with
  no error. The remote system is the in-memory one, where the delete removes the record
  and the get-one that follows finds none.
\<close>

theorem GetIPInterface_after_delete:
  "DeleteIPInterface errorHandler mem_client uuid w = (None, w1) \<Longrightarrow>
   \<forall>rec \<in> set w. mem_matches (GetIPInterface_query name svmName) rec \<longrightarrow> string_field rec ''uuid'' = uuid \<Longrightarrow>
   GetIPInterface errorHandler mem_client name svmName w1 =
     ((None, Some (MakeAndReportError errorHandler (Lit ''error reading ip_interface info'')
        (Sprintf ''error on GET %s: %s, statusCode %d''
           [ArgString api, ArgError (Errorf ''no response for GET %s'' [ArgString api]),
            ArgInt 200]))), w1)"
proof -
  assume d: "DeleteIPInterface errorHandler mem_client uuid w = (None, w1)"
    and same: "\<forall>rec \<in> set w. mem_matches (GetIPInterface_query name svmName) rec \<longrightarrow>
      string_field rec ''uuid'' = uuid"
  from mem_delete_succeeded [OF d]
  have w1: "w1 = filter (\<lambda>rec. string_field rec ''uuid'' \<noteq> uuid) w" by simp
  with same have "filter (mem_matches (GetIPInterface_query name svmName)) w1 = []"
    by (auto simp: filter_empty_conv)
  then have "GetNilOrOneRecord mem_client api (GetIPInterface_query name svmName) None w1 =
      ((200, None, None), w1)"
    by (rule mem_get_one_nothing)
  then show ?thesis by (rule GetIPInterface_no_response)
qed

theorem GetIPInterface_after_delete_witness:
  "GetIPInterface diag_handler mem_client ''lif1'' ''vs1'' [mgmt_record, lif1_record] =
     ((Some \<lparr>Name = ''lif1'', Scope = ''svm'', SVMName = ''vs1'', UUID = ''uuid-of-lif1''\<rparr>, None),
      [mgmt_record, lif1_record]) \<and>
   DeleteIPInterface diag_handler mem_client ''uuid-of-lif1'' [mgmt_record, lif1_record] = (None, [mgmt_record]) \<and>
   GetIPInterface diag_handler mem_client ''lif1'' ''vs1'' [mgmt_record] =
     ((None, Some (Error ''error reading ip_interface info'')), [mgmt_record])"
proof -
  have before: "GetIPInterface diag_handler mem_client ''lif1'' ''vs1'' [mgmt_record, lif1_record] =
     ((Some \<lparr>Name = ''lif1'', Scope = ''svm'', SVMName = ''vs1'', UUID = ''uuid-of-lif1''\<rparr>, None),
      [mgmt_record, lif1_record])"
    by (simp add: GetIPInterface_def GetIPInterface_query_eval mem_client_def mem_matches_def
          query_params_def mgmt_record_def lif1_record_def map_entries_def
          mapstructure_Decode_record_def decode_string_def string_field_def lookup_key_def)
  have d: "DeleteIPInterface diag_handler mem_client ''uuid-of-lif1'' [mgmt_record, lif1_record] =
      (None, [mgmt_record])"
    by (simp add: DeleteIPInterface_def mem_client_def mem_path_def api_def string_field_def
          decode_string_def lookup_key_def mgmt_record_def lif1_record_def)
  have same: "\<forall>rec \<in> set [mgmt_record, lif1_record].
      mem_matches (GetIPInterface_query ''lif1'' ''vs1'') rec \<longrightarrow> string_field rec ''uuid'' = ''uuid-of-lif1''"
    by (simp add: GetIPInterface_query_eval mem_matches_def query_params_def mgmt_record_def
          lif1_record_def string_field_def decode_string_def lookup_key_def)
  from GetIPInterface_after_delete [OF d same] before d
  show ?thesis by (simp add: diag_handler_def)
qed

text \<open>
  The claim as it was stated (the get-one after the delete returns a nil result with no
  error) fails against the in-memory system: the delete succeeds, the record is gone, and
  the get-one that follows returns an error.
\<close>

theorem deleted_record_read_is_an_error:
  "fst (DeleteIPInterface diag_handler mem_client ''uuid-of-lif1'' [lif1_record]) = None \<and>
   GetIPInterface diag_handler mem_client ''lif1'' ''vs1''
     (snd (DeleteIPInterface diag_handler mem_client ''uuid-of-lif1'' [lif1_record])) =
     ((None, Some (Error ''error reading ip_interface info'')), []) \<and>
   fst (GetIPInterface diag_handler mem_client ''lif1'' ''vs1''
     (snd (DeleteIPInterface diag_handler mem_client ''uuid-of-lif1'' [lif1_record]))) \<noteq> (None, None)"
  by (simp add: DeleteIPInterface_def GetIPInterface_def GetIPInterface_query_def mem_client_def
        diag_handler_def lif1_record_def mem_path_def api_def string_field_def decode_string_def
        lookup_key_def NewQuery_def Set_def Fields_def mem_matches_def query_params_def)

subsection \<open>Create\<close>




subsection \<open>What a read returns\<close>

text \<open>
  C10. Both reads ask for the \<^verbatim>\<open>ip\<close> field in their projection, yet the decoded record
  has only a name, a scope, an svm name and a uuid: decoding a record gives the same
  outcome with its \<^verbatim>\<open>ip\<close> entry as without it, and so the result of get-one and of
  get-many is what it would be had the transport returned no address and netmask at all.
\<close>

theorem reads_discard_ip:
  "QFields [''name'', ''svm.name'', ''ip'', ''scope''] \<in> set (GetIPInterface_query name svmName) \<and>
   (\<exists>query. GetIPInterfaces_query filter' = Inr query \<and>
      QFields [''name'', ''svm.name'', ''ip'', ''scope''] \<in> set query) \<and>
   mapstructure_Decode_record (without_ip m) = mapstructure_Decode_record m \<and>
   fst (fst (GetIPInterface errorHandler (client_without_ip r) name svmName w)) =
     fst (fst (GetIPInterface errorHandler r name svmName w)) \<and>
   fst (fst (GetIPInterfaces errorHandler (client_without_ip r) filter' w)) =
     fst (fst (GetIPInterfaces errorHandler r filter' w))"
proof -
  have "QFields [''name'', ''svm.name'', ''ip'', ''scope''] \<in> set (GetIPInterface_query name svmName)"
    by (simp add: GetIPInterface_query_def NewQuery_def Set_def Fields_def Let_def)
  moreover have "\<exists>query. GetIPInterfaces_query filter' = Inr query \<and>
      QFields [''name'', ''svm.name'', ''ip'', ''scope''] \<in> set query"
    by (cases filter')
       (simp_all add: GetIPInterfaces_query_def mapstructure_Decode_filter_def NewQuery_def
          Fields_def SetValues_def)
  ultimately show ?thesis
    using Decode_record_without_ip [of m] GetIPInterface_without_ip [of errorHandler r name svmName w]
      GetIPInterfaces_without_ip [of errorHandler r filter' w]
    by simp
qed

end
